theory Spec2Isabelle
  imports Main
begin

section \<open>Data model of \<^verbatim>\<open>t5/data/utils.py\<close>\<close>

text \<open>
  Exceptions of the module become values. \<open>ValueError\<close> is raised by \<^verbatim>\<open>files\<close> (a builder
  with several configs) and by numpy's \<^verbatim>\<open>reshape\<close>; \<open>KeyError\<close> by a dictionary lookup of a
  missing key; \<open>DatasetNotFoundError\<close> stands for a failure of the external
  \<^verbatim>\<open>tfds.builder\<close>, and \<open>UnknownSplit\<close> for what the external catalogue raises when asked
  for a split it does not know (a \<^verbatim>\<open>KeyError\<close> or a \<^verbatim>\<open>ValueError\<close>, by its version).
  \<open>Fatal\<close> is the end of the process: absl's handler aborts after it has written a record
  of level FATAL.
\<close>

datatype error = ValueError | KeyError | Fatal | DatasetNotFoundError | UnknownSplit

text \<open>
  A value of the split metadata the external catalogue hands out: \<^verbatim>\<open>file_instructions\<close>
  (each instruction is opaque here and stands as its file name) and \<^verbatim>\<open>num_examples\<close>.
\<close>

type_synonym file_instruction = string

record SplitInfo =
  file_instructions :: "file_instruction list"
  num_examples :: int

record DatasetInfo =
  splits :: "string \<rightharpoonup> SplitInfo"

record DatasetBuilder =
  BUILDER_CONFIGS :: "string list"
  info :: DatasetInfo

text \<open>An object is its identity (what Python's \<^verbatim>\<open>is\<close> compares) together with its value.\<close>

type_synonym 'a obj = "nat \<times> 'a"

text \<open>
  The module's global variables, the class attribute \<^verbatim>\<open>LazyTfdsLoader._MEMOIZED_BUILDERS\<close>,
  and what the module does to the outside: the records \<^verbatim>\<open>logging.warning\<close> was called with
  (own directory, override, dataset name), the dataset names \<^verbatim>\<open>logging.fatal\<close> was called
  with, the arguments of every call of \<^verbatim>\<open>tfds.builder\<close>, and the identity the next
  constructed object gets. \<open>absl_handler\<close> says whether absl's log handler is installed on
  the root logger: \<^verbatim>\<open>absl.app.run\<close> and \<^verbatim>\<open>logging.use_absl_handler()\<close> install it, importing
  the module does not.
\<close>

record globals =
  TFDS_DATA_DIR_OVERRIDE :: "string option"
  MEMOIZED_BUILDERS :: "(string \<times> string option) \<rightharpoonup> DatasetBuilder obj"
  NEXT_MAP_SEED :: "int option"
  warnings :: "(string option \<times> string option \<times> string) list"
  builder_calls :: "(string \<times> string option) list"
  next_id :: nat
  fatal_records :: "string list"
  absl_handler :: bool

text \<open>The state right after the module is imported.\<close>

definition initial_globals :: globals where
  "initial_globals =
     \<lparr>TFDS_DATA_DIR_OVERRIDE = None, MEMOIZED_BUILDERS = Map.empty, NEXT_MAP_SEED = None,
      warnings = [], builder_calls = [], next_id = 0, fatal_records = [],
      absl_handler = False\<rparr>"

text \<open>A statement sequence that reads and writes the globals and may raise.\<close>

type_synonym 'a prog = "globals \<Rightarrow> (error + 'a) \<times> globals"

definition return :: "'a \<Rightarrow> 'a prog" where
  "return v g = (Inr v, g)"

definition raise :: "error \<Rightarrow> 'a prog" where
  "raise e g = (Inl e, g)"

definition bind :: "'a prog \<Rightarrow> ('a \<Rightarrow> 'b prog) \<Rightarrow> 'b prog" where
  "bind m f g = (case m g of (Inl e, g') \<Rightarrow> (Inl e, g') | (Inr v, g') \<Rightarrow> f v g')"

section \<open>The seed counter: \<^verbatim>\<open>map_seed_manager\<close> and \<^verbatim>\<open>map_over_dataset\<close>\<close>

text \<open>
  \<^verbatim>\<open>map_seed_manager\<close> is a generator under \<^verbatim>\<open>contextlib.contextmanager\<close>. Entering the
  \<^verbatim>\<open>with\<close> block runs it up to \<^verbatim>\<open>yield\<close>; \<^verbatim>\<open>old_map_seed\<close> stays in its frame. When the block
  ends normally the generator is resumed and runs the line after \<^verbatim>\<open>yield\<close>. When the block
  raises, the exception is thrown into the generator at \<^verbatim>\<open>yield\<close>; the generator has no
  \<^verbatim>\<open>try\<close>, so the exception leaves it at once and the line after \<^verbatim>\<open>yield\<close> is not run.
\<close>

definition map_seed_manager_enter :: "int option \<Rightarrow> globals \<Rightarrow> int option \<times> globals" where
  "map_seed_manager_enter initial_seed g =
     (let old_map_seed = NEXT_MAP_SEED g
      in (old_map_seed, g\<lparr>NEXT_MAP_SEED := initial_seed\<rparr>))"

definition map_seed_manager_exit :: "int option \<Rightarrow> globals \<Rightarrow> globals" where
  "map_seed_manager_exit old_map_seed g = g\<lparr>NEXT_MAP_SEED := old_map_seed\<rparr>"

definition map_seed_manager :: "int option \<Rightarrow> 'a prog \<Rightarrow> 'a prog" where
  "map_seed_manager initial_seed body g =
     (case map_seed_manager_enter initial_seed g of
        (old_map_seed, g1) \<Rightarrow>
          (case body g1 of
             (Inr v, g2) \<Rightarrow> (Inr v, map_seed_manager_exit old_map_seed g2)
           | (Inl e, g2) \<Rightarrow> (Inl e, g2)))"

text \<open>
  \<^verbatim>\<open>np.arange(start, stop)\<close> on two Python integers, with the step \<open>1\<close>. numpy's arrays have
  a fixed element type, which \<^verbatim>\<open>arange\<close> takes from its arguments: \<^verbatim>\<open>int64\<close> when both fit a
  signed 64-bit integer; otherwise \<^verbatim>\<open>float64\<close> when each fits a signed or an unsigned 64-bit
  integer (the common type of \<^verbatim>\<open>uint64\<close> and the \<^verbatim>\<open>int64\<close> of the step); Python objects when
  one fits neither.
\<close>

definition int64 :: "int \<Rightarrow> bool" where
  "int64 x = (- (2 ^ 63) \<le> x \<and> x < 2 ^ 63)"

definition uint64 :: "int \<Rightarrow> bool" where
  "uint64 x = (0 \<le> x \<and> x < 2 ^ 64)"

datatype dtype = np_int64 | np_float64 | np_object

definition arange_dtype :: "int \<Rightarrow> int \<Rightarrow> dtype" where
  "arange_dtype start stop =
     (if int64 start \<and> int64 stop then np_int64
      else if (int64 start \<or> uint64 start) \<and> (int64 stop \<or> uint64 stop) then np_float64
      else np_object)"

text \<open>
  The \<^verbatim>\<open>float64\<close> nearest to an integer, ties to the even mantissa: an integer of more than
  53 bits keeps its leading 53 bits, rounded. \<open>bit_length\<close> is Python's \<^verbatim>\<open>int.bit_length\<close>.
\<close>

fun bit_length :: "nat \<Rightarrow> nat" where
  "bit_length n = (if n = 0 then 0 else Suc (bit_length (n div 2)))"

declare bit_length.simps [simp del]

definition to_double :: "int \<Rightarrow> int" where
  "to_double x =
     (let a = \<bar>x\<bar>; l = bit_length (nat a)
      in if l \<le> 53 then x
         else (let u = 2 ^ (l - 53); q = a div u; r = a mod u;
                   m = (if 2 * r < u \<or> (2 * r = u \<and> even q) then q else q + 1)
               in sgn x * (m * u)))"

text \<open>
  The array, as the list of the numeric values of its elements (every \<^verbatim>\<open>float64\<close> that
  arises here is a whole number). It has \<open>stop - start\<close> elements. An \<^verbatim>\<open>int64\<close> array and
  an array of Python objects hold \<open>start, start + 1, \<dots>\<close> exactly. A \<^verbatim>\<open>float64\<close> array gets
  \<open>start\<close> and \<open>start + 1\<close>, each converted to \<^verbatim>\<open>float64\<close>, as its first two elements, and
  element \<open>i\<close> is computed in \<^verbatim>\<open>float64\<close> as the first plus \<open>i\<close> times their difference.
\<close>

definition np_arange :: "int \<Rightarrow> int \<Rightarrow> int list" where
  "np_arange start stop =
     (case arange_dtype start stop of
        np_float64 \<Rightarrow>
          (let v0 = to_double start; v1 = to_double (start + 1)
           in map (\<lambda>i. if i = 0 then v0 else if i = 1 then v1
                        else to_double (v0 + to_double (int i * (v1 - v0))))
                [0..<nat (stop - start)])
      | _ \<Rightarrow> [start..stop - 1])"

text \<open>
  \<^verbatim>\<open>.reshape(-1, 2)\<close> followed by the conversion to a tuple of pairs; numpy refuses to
  reshape an odd number of elements.
\<close>

fun reshape_2 :: "int list \<Rightarrow> error + (int \<times> int) list" where
  "reshape_2 [] = Inr []"
| "reshape_2 [x] = Inl ValueError"
| "reshape_2 (x # y # xs) =
     (case reshape_2 xs of Inl e \<Rightarrow> Inl e | Inr ps \<Rightarrow> Inr ((x, y) # ps))"

text \<open>
  A seed is a pair, of numeric values or \<^verbatim>\<open>(None, None)\<close> when no initial seed is set. \<open>random_ds_seeds\<close> is the
  first statement of \<^verbatim>\<open>wrapped_fn\<close> in \<^verbatim>\<open>map_with_seeds\<close>: it computes the tuple
  \<^verbatim>\<open>random_ds_seeds\<close> for \<^verbatim>\<open>num_seeds\<close> and advances \<^verbatim>\<open>_NEXT_MAP_SEED\<close>. A tuple times a
  negative number is the empty tuple.
\<close>

type_synonym seed = "int option \<times> int option"

definition random_ds_seeds :: "int \<Rightarrow> (seed list) prog" where
  "random_ds_seeds num_seeds g =
     (case NEXT_MAP_SEED g of
        None \<Rightarrow> (Inr (replicate (nat num_seeds) (None, None)), g)
      | Some s \<Rightarrow>
          (case reshape_2 (np_arange s (s + 2 * num_seeds)) of
             Inl e \<Rightarrow> (Inl e, g)
           | Inr ps \<Rightarrow>
               (Inr (map (\<lambda>(a, b). (Some a, Some b)) ps),
                g\<lparr>NEXT_MAP_SEED := Some (s + 2 * num_seeds)\<rparr>)))"

text \<open>The integer components of a tuple of seeds, in order.\<close>

definition components :: "seed list \<Rightarrow> int option list" where
  "components seeds = concat (map (\<lambda>(a, b). [a, b]) seeds)"

text \<open>
  Calling seeded mapping functions one after the other, with the seed counts \<open>ns\<close>: the
  tuples of seeds each call computed, in call order.
\<close>

fun seed_requests :: "int list \<Rightarrow> (seed list list) prog" where
  "seed_requests [] = return []"
| "seed_requests (n # ns) =
     bind (random_ds_seeds n) (\<lambda>seeds.
     bind (seed_requests ns) (\<lambda>rest. return (seeds # rest)))"

section \<open>\<^verbatim>\<open>LazyTfdsLoader\<close>\<close>

text \<open>
  The loader's fields \<^verbatim>\<open>_name\<close>, \<^verbatim>\<open>_data_dir\<close> and \<^verbatim>\<open>_split_map\<close>. The split map is a
  dictionary, kept as an association list because the code tests it for emptiness.
\<close>

record LazyTfdsLoader =
  self_name :: string
  self_data_dir :: "string option"
  self_split_map :: "(string \<times> string) list option"

text \<open>Python's truth value of an optional string: \<^verbatim>\<open>None\<close> and \<^verbatim>\<open>""\<close> are false.\<close>

definition truthy :: "string option \<Rightarrow> bool" where
  "truthy d = (case d of None \<Rightarrow> False | Some s \<Rightarrow> s \<noteq> [])"

definition set_tfds_data_dir_override :: "string option \<Rightarrow> globals \<Rightarrow> globals" where
  "set_tfds_data_dir_override tfds_data_dir g = g\<lparr>TFDS_DATA_DIR_OVERRIDE := tfds_data_dir\<rparr>"

definition data_dir :: "LazyTfdsLoader \<Rightarrow> globals \<Rightarrow> string option \<times> globals" where
  "data_dir self g =
     (if truthy (TFDS_DATA_DIR_OVERRIDE g) then
        (TFDS_DATA_DIR_OVERRIDE g,
         if truthy (self_data_dir self)
         then g\<lparr>warnings := warnings g @
                  [(self_data_dir self, TFDS_DATA_DIR_OVERRIDE g, self_name self)]\<rparr>
         else g)
      else (self_data_dir self, g))"

text \<open>
  \<^verbatim>\<open>tfds.builder\<close> belongs to the external catalogue and is a parameter \<open>tfds\<close> here: what it
  constructs for a name and a directory, or the error it raises. Every call is recorded
  and every object it returns is a new one.
\<close>

type_synonym tfds = "string \<Rightarrow> string option \<Rightarrow> error + DatasetBuilder"

definition tfds_builder :: "tfds \<Rightarrow> string \<Rightarrow> string option \<Rightarrow> (DatasetBuilder obj) prog" where
  "tfds_builder tfds name dir g =
     (let g1 = g\<lparr>builder_calls := builder_calls g @ [(name, dir)]\<rparr>
      in case tfds name dir of
           Inl e \<Rightarrow> (Inl e, g1)
         | Inr b \<Rightarrow> (Inr (next_id g1, b), g1\<lparr>next_id := Suc (next_id g1)\<rparr>))"

text \<open>
  The property \<^verbatim>\<open>builder\<close>. \<^verbatim>\<open>self.data_dir\<close> is read once for the key and, when the key is
  not memoized, once more for the call of \<^verbatim>\<open>tfds.builder\<close>.
\<close>

definition builder :: "tfds \<Rightarrow> LazyTfdsLoader \<Rightarrow> (DatasetBuilder obj) prog" where
  "builder tfds self g =
     (case data_dir self g of
        (d, g1) \<Rightarrow>
          (let builder_key = (self_name self, d);
               r = (if MEMOIZED_BUILDERS g1 builder_key = None then
                      (case data_dir self g1 of
                         (d', g2) \<Rightarrow>
                           (case tfds_builder tfds (self_name self) d' g2 of
                              (Inl e, g3) \<Rightarrow> (Inl e, g3)
                            | (Inr b, g3) \<Rightarrow>
                                (Inr (),
                                 g3\<lparr>MEMOIZED_BUILDERS :=
                                      (MEMOIZED_BUILDERS g3)(builder_key \<mapsto> b)\<rparr>)))
                    else (Inr (), g1))
           in case r of
                (Inl e, g4) \<Rightarrow> (Inl e, g4)
              | (Inr _, g4) \<Rightarrow>
                  (case MEMOIZED_BUILDERS g4 builder_key of
                     None \<Rightarrow> (Inl KeyError, g4)
                   | Some b \<Rightarrow> (Inr b, g4))))"

text \<open>
  Several threads reading \<^verbatim>\<open>self.builder\<close> of one loader. The property has no lock, so
  another thread may run between two of its statements. A thread is at one of them: before
  line 106 (\<open>At_key\<close>); before the test of line 107, with its \<^verbatim>\<open>builder_key\<close> (\<open>At_check\<close>);
  before the assignment of lines 108-109 (\<open>At_fill\<close>); before the \<^verbatim>\<open>return\<close> of line 110
  (\<open>At_return\<close>); or it has returned or raised (\<open>Finished\<close>). \<open>builder_step\<close> runs the
  statement a thread is at.
\<close>

datatype thread =
    At_key
  | At_check "string \<times> string option"
  | At_fill "string \<times> string option"
  | At_return "string \<times> string option"
  | Finished "error + DatasetBuilder obj"

definition builder_step :: "tfds \<Rightarrow> LazyTfdsLoader \<Rightarrow> thread \<Rightarrow> globals \<Rightarrow> thread \<times> globals" where
  "builder_step tfds self t g =
     (case t of
        At_key \<Rightarrow> (case data_dir self g of (d, g1) \<Rightarrow> (At_check (self_name self, d), g1))
      | At_check builder_key \<Rightarrow>
          (if MEMOIZED_BUILDERS g builder_key = None then (At_fill builder_key, g)
           else (At_return builder_key, g))
      | At_fill builder_key \<Rightarrow>
          (case data_dir self g of
             (d', g2) \<Rightarrow>
               (case tfds_builder tfds (self_name self) d' g2 of
                  (Inl e, g3) \<Rightarrow> (Finished (Inl e), g3)
                | (Inr b, g3) \<Rightarrow>
                    (At_return builder_key,
                     g3\<lparr>MEMOIZED_BUILDERS := (MEMOIZED_BUILDERS g3)(builder_key \<mapsto> b)\<rparr>)))
      | At_return builder_key \<Rightarrow>
          (case MEMOIZED_BUILDERS g builder_key of
             None \<Rightarrow> (Finished (Inl KeyError), g)
           | Some b \<Rightarrow> (Finished (Inr b), g))
      | Finished r \<Rightarrow> (Finished r, g))"

text \<open>
  A schedule names, step by step, the thread that runs its next statement; a number
  that names no thread is skipped, and a thread that has finished stays as it is. In
  \<open>one_after_another n\<close> thread \<open>0\<close> runs its four statements, then thread \<open>1\<close>, up to
  thread \<open>n - 1\<close>: no read starts before the one before it has returned.
\<close>

fun run :: "tfds \<Rightarrow> LazyTfdsLoader \<Rightarrow> nat list \<Rightarrow> thread list \<Rightarrow> globals \<Rightarrow> thread list \<times> globals" where
  "run tfds self [] ts g = (ts, g)"
| "run tfds self (i # schedule) ts g =
     (if i < length ts then
        (case builder_step tfds self (ts ! i) g of
           (t, g') \<Rightarrow> run tfds self schedule (ts[i := t]) g')
      else run tfds self schedule ts g)"

definition one_after_another :: "nat \<Rightarrow> nat list" where
  "one_after_another n = concat (map (replicate 4) [0..<n])"

text \<open>\<^verbatim>\<open>_map_split\<close>: an absent or empty split map is false; indexing a dictionary raises.\<close>

definition map_split :: "LazyTfdsLoader \<Rightarrow> string \<Rightarrow> error + string" where
  "map_split self split =
     (case self_split_map self of
        None \<Rightarrow> Inr split
      | Some m \<Rightarrow>
          if m = [] then Inr split
          else (case map_of m split of None \<Rightarrow> Inl KeyError | Some s \<Rightarrow> Inr s))"

text \<open>Lifting a pure result that may be an error into a statement sequence.\<close>

definition lift :: "error + 'a \<Rightarrow> 'a prog" where
  "lift r g = (r, g)"

text \<open>
  absl's \<^verbatim>\<open>logging.fatal\<close> writes a record of level FATAL. Under absl's handler the process
  is aborted when the record is emitted. Without it the record goes to Python's own
  handlers as level CRITICAL and the call returns.
\<close>

definition logging_fatal :: "string \<Rightarrow> unit prog" where
  "logging_fatal name g =
     (let g1 = g\<lparr>fatal_records := fatal_records g @ [name]\<rparr>
      in if absl_handler g1 then (Inl Fatal, g1) else (Inr (), g1))"

text \<open>
  \<^verbatim>\<open>files\<close>. The condition \<^verbatim>\<open>"/" not in self.name and self.builder.BUILDER_CONFIGS\<close> reads
  the builder only when the name has no slash. \<^verbatim>\<open>splits[split]\<close> raises on a split the
  catalogue does not know. After \<^verbatim>\<open>logging.fatal\<close> the source goes on to \<^verbatim>\<open>return files\<close>.
\<close>

definition files :: "tfds \<Rightarrow> LazyTfdsLoader \<Rightarrow> string \<Rightarrow> (file_instruction list) prog" where
  "files tfds self split0 =
     bind (lift (map_split self split0)) (\<lambda>split.
     bind (if CHR ''/'' \<notin> set (self_name self)
           then bind (builder tfds self) (\<lambda>b. return (BUILDER_CONFIGS (snd b) \<noteq> []))
           else return False) (\<lambda>multiple_configs.
     if multiple_configs then raise ValueError
     else
       bind (builder tfds self) (\<lambda>b.
       (case splits (info (snd b)) split of
          None \<Rightarrow> raise UnknownSplit
        | Some split_info \<Rightarrow>
            (let fs = file_instructions split_info
             in bind (if fs = [] then logging_fatal (self_name self) else return ())
                  (\<lambda>_. return fs))))))"

text \<open>\<^verbatim>\<open>size\<close>: the number of examples, or \<^verbatim>\<open>np.inf\<close>.\<close>

datatype dataset_size = Examples int | np_inf

definition size_of :: "tfds \<Rightarrow> LazyTfdsLoader \<Rightarrow> string \<Rightarrow> dataset_size prog" where
  "size_of tfds self split0 =
     bind (lift (map_split self split0)) (\<lambda>split.
     bind (builder tfds self) (\<lambda>b.
     (case splits (info (snd b)) split of
        None \<Rightarrow> raise UnknownSplit
      | Some split_info \<Rightarrow>
          (let dataset_size = num_examples split_info
           in return (if dataset_size > 0 then Examples dataset_size else np_inf)))))"

section \<open>A small catalogue for concrete runs\<close>

text \<open>
  One dataset, \<^verbatim>\<open>mnist\<close>, with a single config, a \<^verbatim>\<open>train\<close> split of one file and a
  \<^verbatim>\<open>test\<close> split that has no files and declares no examples; and a loader for it, built
  as \<^verbatim>\<open>LazyTfdsLoader("mnist")\<close>.
\<close>

definition example_builder :: DatasetBuilder where
  "example_builder =
     \<lparr>BUILDER_CONFIGS = [],
      info = \<lparr>splits = [''train'' \<mapsto> \<lparr>file_instructions = [''mnist-train.tfrecord-00000-of-00001''],
                                       num_examples = 60000\<rparr>,
                         ''test'' \<mapsto> \<lparr>file_instructions = [], num_examples = 0\<rparr>]\<rparr>\<rparr>"

definition example_tfds :: tfds where
  "example_tfds name dir =
     (if name = ''mnist'' then Inr example_builder else Inl DatasetNotFoundError)"

definition example_loader :: LazyTfdsLoader where
  "example_loader = \<lparr>self_name = ''mnist'', self_data_dir = None, self_split_map = None\<rparr>"

section \<open>Seed arithmetic\<close>

lemma upto_two: "s + 1 \<le> e \<Longrightarrow> [s..e] = s # (s + 1) # [s + 2..e]"
proof -
  assume h: "s + 1 \<le> e"
  then have "[s..e] = s # [s + 1..e]" by (simp add: upto_rec1)
  moreover from h have "[s + 1..e] = (s + 1) # [s + 1 + 1..e]" by (rule upto_rec1 [OF _])
  moreover have "s + 1 + 1 = s + 2" by simp
  ultimately show ?thesis by simp
qed

lemma map_upt_shift: "map f [0..<Suc k] = f 0 # map (\<lambda>i. f (Suc i)) [0..<k]"
  by (simp add: upt_conv_Cons map_Suc_upt [symmetric] del: upt_Suc)

lemma np_arange_int64:
  "int64 start \<Longrightarrow> int64 stop \<Longrightarrow> np_arange start stop = [start..stop - 1]"
  by (simp add: np_arange_def arange_dtype_def)

lemma reshape_2_upto:
  "reshape_2 [s..s + 2 * int k - 1] =
     Inr (map (\<lambda>i. (s + 2 * int i, s + 2 * int i + 1)) [0..<k])"
proof (induction k arbitrary: s)
  case 0
  show ?case by simp
next
  case (Suc k)
  have "[s..s + 2 * int (Suc k) - 1] = s # (s + 1) # [s + 2..(s + 2) + 2 * int k - 1]"
    using upto_two [of s "s + 2 * int (Suc k) - 1"] by (simp add: algebra_simps)
  then show ?case
    using Suc.IH [of "s + 2"]
    by (simp add: map_upt_shift algebra_simps del: upt_Suc)
qed

lemma components_block:
  "components (map (\<lambda>(a, b). (Some a, Some b)) (map (\<lambda>i. (s + 2 * int i, s + 2 * int i + 1)) [0..<k]))
     = map Some [s..s + 2 * int k - 1]"
proof (induction k arbitrary: s)
  case 0
  show ?case by (simp add: components_def)
next
  case (Suc k)
  have "[s..s + 2 * int (Suc k) - 1] = s # (s + 1) # [s + 2..(s + 2) + 2 * int k - 1]"
    using upto_two [of s "s + 2 * int (Suc k) - 1"] by (simp add: algebra_simps)
  then show ?case
    using Suc.IH [of "s + 2"]
    by (simp add: map_upt_shift components_def algebra_simps del: upt_Suc)
qed

lemma random_ds_seeds_Some:
  assumes "NEXT_MAP_SEED g = Some s" and "int64 s" and "int64 (s + 2 * n)"
  shows "random_ds_seeds n g =
    (Inr (map (\<lambda>i. (Some (s + 2 * int i), Some (s + 2 * int i + 1))) [0..<nat n]),
     g\<lparr>NEXT_MAP_SEED := Some (s + 2 * n)\<rparr>)"
proof -
  have a: "np_arange s (s + 2 * n) = [s..s + 2 * n - 1]"
    using assms(2,3) by (rule np_arange_int64)
  show ?thesis
  proof (cases "0 \<le> n")
    case True
    then have "reshape_2 [s..s + 2 * n - 1] =
        Inr (map (\<lambda>i. (s + 2 * int i, s + 2 * int i + 1)) [0..<nat n])"
      using reshape_2_upto [of s "nat n"] by simp
    then show ?thesis using assms(1) a by (simp add: random_ds_seeds_def comp_def)
  next
    case False
    then show ?thesis using assms(1) a by (simp add: random_ds_seeds_def)
  qed
qed

lemma random_ds_seeds_None:
  "NEXT_MAP_SEED g = None \<Longrightarrow>
   random_ds_seeds n g = (Inr (replicate (nat n) (None, None)), g)"
  by (simp add: random_ds_seeds_def)

text \<open>Around \<open>2 ^ 63\<close> a \<^verbatim>\<open>float64\<close> has no room for the last ten or eleven bits.\<close>

lemma to_double_near_2_63:
  "to_double 9223372036854775806 = 9223372036854775808"
  "to_double 9223372036854775807 = 9223372036854775808"
  "to_double 9223372036854775808 = 9223372036854775808"
  "to_double 9223372036854775809 = 9223372036854775808"
  by (simp_all add: to_double_def Let_def bit_length.simps)

lemma np_arange_across_2_63:
  "np_arange 9223372036854775806 9223372036854775808 =
     [9223372036854775808, 9223372036854775808]"
  by (simp add: np_arange_def arange_dtype_def int64_def uint64_def Let_def
      to_double_near_2_63 numeral_2_eq_2)

lemma np_arange_from_2_63:
  "np_arange 9223372036854775808 9223372036854775810 =
     [9223372036854775808, 9223372036854775808]"
  by (simp add: np_arange_def arange_dtype_def int64_def uint64_def Let_def
      to_double_near_2_63 numeral_2_eq_2)

section \<open>Reading the directory and the memoized builder\<close>

lemma fst_data_dir: "fst (data_dir self g) =
    (if truthy (TFDS_DATA_DIR_OVERRIDE g) then TFDS_DATA_DIR_OVERRIDE g else self_data_dir self)"
  by (simp add: data_dir_def)

lemma data_dir_frame:
  "TFDS_DATA_DIR_OVERRIDE (snd (data_dir self g)) = TFDS_DATA_DIR_OVERRIDE g"
  "MEMOIZED_BUILDERS (snd (data_dir self g)) = MEMOIZED_BUILDERS g"
  "NEXT_MAP_SEED (snd (data_dir self g)) = NEXT_MAP_SEED g"
  "builder_calls (snd (data_dir self g)) = builder_calls g"
  "next_id (snd (data_dir self g)) = next_id g"
  "fatal_records (snd (data_dir self g)) = fatal_records g"
  "absl_handler (snd (data_dir self g)) = absl_handler g"
  by (simp_all add: data_dir_def)

lemma builder_hit:
  assumes "MEMOIZED_BUILDERS g (self_name self, fst (data_dir self g)) = Some b"
  shows "builder tfds self g = (Inr b, snd (data_dir self g))"
proof -
  obtain d g1 where dd: "data_dir self g = (d, g1)" by (cases "data_dir self g")
  have "MEMOIZED_BUILDERS g1 = MEMOIZED_BUILDERS g"
    using data_dir_frame(2) [of self g] dd by simp
  then show ?thesis using assms dd by (simp add: builder_def Let_def)
qed

lemma builder_miss:
  assumes "MEMOIZED_BUILDERS g (self_name self, fst (data_dir self g)) = None"
  shows "builder tfds self g =
    (let d = fst (data_dir self g); g2 = snd (data_dir self (snd (data_dir self g)));
         g3 = g2\<lparr>builder_calls := builder_calls g @ [(self_name self, d)]\<rparr>
     in case tfds (self_name self) d of
          Inl e \<Rightarrow> (Inl e, g3)
        | Inr bd \<Rightarrow> (Inr (next_id g, bd),
            g3\<lparr>next_id := Suc (next_id g),
                MEMOIZED_BUILDERS := (MEMOIZED_BUILDERS g)((self_name self, d) \<mapsto> (next_id g, bd))\<rparr>))"
proof -
  obtain d g1 where dd: "data_dir self g = (d, g1)" by (cases "data_dir self g")
  obtain d' g2 where dd': "data_dir self g1 = (d', g2)" by (cases "data_dir self g1")
  have g1: "TFDS_DATA_DIR_OVERRIDE g1 = TFDS_DATA_DIR_OVERRIDE g" "MEMOIZED_BUILDERS g1 = MEMOIZED_BUILDERS g"
    "builder_calls g1 = builder_calls g" "next_id g1 = next_id g"
    using data_dir_frame [of self g] dd by simp_all
  have g2: "MEMOIZED_BUILDERS g2 = MEMOIZED_BUILDERS g"
    "builder_calls g2 = builder_calls g" "next_id g2 = next_id g"
    using data_dir_frame [of self g1] dd' g1 by simp_all
  have d': "d' = d" using fst_data_dir [of self g] fst_data_dir [of self g1] dd dd' g1 by simp
  show ?thesis
    using assms dd dd' g1 g2 d'
    by (simp add: builder_def Let_def tfds_builder_def split: sum.splits)
qed

lemma builder_memoizes:
  assumes "fst (builder tfds self g) = Inr b"
  shows "MEMOIZED_BUILDERS (snd (builder tfds self g)) (self_name self, fst (data_dir self g)) = Some b"
    and "TFDS_DATA_DIR_OVERRIDE (snd (builder tfds self g)) = TFDS_DATA_DIR_OVERRIDE g"
proof -
  let ?key = "(self_name self, fst (data_dir self g))"
  show "MEMOIZED_BUILDERS (snd (builder tfds self g)) ?key = Some b"
  proof (cases "MEMOIZED_BUILDERS g ?key")
    case None
    then show ?thesis using assms
      by (simp add: builder_miss Let_def data_dir_frame split: sum.splits)
  next
    case (Some c)
    then show ?thesis using assms by (simp add: builder_hit data_dir_frame)
  qed
  show "TFDS_DATA_DIR_OVERRIDE (snd (builder tfds self g)) = TFDS_DATA_DIR_OVERRIDE g"
  proof (cases "MEMOIZED_BUILDERS g ?key")
    case None
    then show ?thesis
      by (simp add: builder_miss Let_def data_dir_frame split: sum.splits)
  next
    case (Some c)
    then show ?thesis by (simp add: builder_hit data_dir_frame)
  qed
qed

lemma builder_again:
  assumes "fst (builder tfds self g) = Inr b"
  shows "builder tfds self (snd (builder tfds self g)) =
           (Inr b, snd (data_dir self (snd (builder tfds self g))))"
proof -
  let ?g1 = "snd (builder tfds self g)"
  have "fst (data_dir self ?g1) = fst (data_dir self g)"
    using builder_memoizes(2) [OF assms] by (simp add: fst_data_dir)
  then have "MEMOIZED_BUILDERS ?g1 (self_name self, fst (data_dir self ?g1)) = Some b"
    using builder_memoizes(1) [OF assms] by simp
  then show ?thesis by (rule builder_hit)
qed

lemma builder_keeps_handler:
  "absl_handler (snd (builder tfds self g)) = absl_handler g"
proof (cases "MEMOIZED_BUILDERS g (self_name self, fst (data_dir self g))")
  case None
  then show ?thesis
    by (simp add: builder_miss Let_def data_dir_frame split: sum.splits)
next
  case (Some c)
  then show ?thesis by (simp add: builder_hit data_dir_frame)
qed

section \<open>The seed counter hands out disjoint, contiguous blocks\<close>

text \<open>
  C1, as amended. For every integer \<open>s0\<close> and positive \<open>n1\<close>, \<open>n2\<close> with
  \<open>- 2 ^ 63 \<le> s0\<close> and \<open>s0 + 2 n1 + 2 n2 < 2 ^ 63\<close>, so that every bound \<^verbatim>\<open>np.arange\<close> is given
  fits a signed 64-bit integer: after entering \<^verbatim>\<open>map_seed_manager(s0)\<close>, a seeded call with
  \<open>n1\<close> seeds followed by one with \<open>n2\<close> seeds computes the pairs \<open>(s0 + 2i, s0 + 2i + 1)\<close>
  for \<open>i < n1\<close> and then \<open>(s0 + 2 n1 + 2i, s0 + 2 n1 + 2i + 1)\<close> for \<open>i < n2\<close>; the counter
  stands at \<open>s0 + 2 n1\<close> after the first call and at \<open>s0 + 2 n1 + 2 n2\<close> after the second;
  the components of the first block are exactly \<open>s0, \<dots>, s0 + 2 n1 - 1\<close>, those of the
  second exactly \<open>s0 + 2 n1, \<dots>, s0 + 2 n1 + 2 n2 - 1\<close>, and the two blocks share no
  component.
\<close>

theorem seeds_contiguous_blocks:
  assumes "0 < n1" and "0 < n2" and "- (2 ^ 63) \<le> s0" and "s0 + 2 * n1 + 2 * n2 < 2 ^ 63"
  shows "let g0 = snd (map_seed_manager_enter (Some s0) g);
             r1 = random_ds_seeds n1 g0;
             r2 = random_ds_seeds n2 (snd r1);
             block1 = map (\<lambda>i. (Some (s0 + 2 * int i), Some (s0 + 2 * int i + 1))) [0..<nat n1];
             block2 = map (\<lambda>i. (Some (s0 + 2 * n1 + 2 * int i), Some (s0 + 2 * n1 + 2 * int i + 1)))
                        [0..<nat n2]
         in fst r1 = Inr block1 \<and> NEXT_MAP_SEED (snd r1) = Some (s0 + 2 * n1) \<and>
            fst r2 = Inr block2 \<and> NEXT_MAP_SEED (snd r2) = Some (s0 + 2 * n1 + 2 * n2) \<and>
            length block1 = nat n1 \<and> length block2 = nat n2 \<and>
            components block1 = map Some [s0..s0 + 2 * n1 - 1] \<and>
            components block2 = map Some [s0 + 2 * n1..s0 + 2 * n1 + 2 * n2 - 1] \<and>
            set (components block1) \<inter> set (components block2) = {}"
proof -
  define g0 where "g0 = snd (map_seed_manager_enter (Some s0) g)"
  have b0: "NEXT_MAP_SEED g0 = Some s0"
    by (simp add: g0_def map_seed_manager_enter_def)
  have range: "int64 s0" "int64 (s0 + 2 * n1)" "int64 (s0 + 2 * n1 + 2 * n2)"
    using assms by (simp_all add: int64_def)
  define block where
    "block s n = map (\<lambda>i. (Some (s + 2 * int i), Some (s + 2 * int i + 1))) [0..<nat n]"
    for s n :: int
  have r1: "random_ds_seeds n1 g0 = (Inr (block s0 n1), g0\<lparr>NEXT_MAP_SEED := Some (s0 + 2 * n1)\<rparr>)"
    unfolding block_def by (rule random_ds_seeds_Some [OF b0 range(1,2)])
  have r2: "random_ds_seeds n2 (g0\<lparr>NEXT_MAP_SEED := Some (s0 + 2 * n1)\<rparr>) =
      (Inr (block (s0 + 2 * n1) n2),
       g0\<lparr>NEXT_MAP_SEED := Some (s0 + 2 * n1), NEXT_MAP_SEED := Some (s0 + 2 * n1 + 2 * n2)\<rparr>)"
    unfolding block_def by (rule random_ds_seeds_Some [OF _ range(2,3)]) simp
  have comps: "components (block s n) = map Some [s..s + 2 * n - 1]" if "0 \<le> n" for s n
    using components_block [of s "nat n"] that by (simp add: block_def comp_def)
  have c1: "components (block s0 n1) = map Some [s0..s0 + 2 * n1 - 1]"
    using assms by (simp add: comps)
  have c2: "components (block (s0 + 2 * n1) n2) = map Some [s0 + 2 * n1..s0 + 2 * n1 + 2 * n2 - 1]"
    using assms by (simp add: comps)
  have disj: "set (components (block s0 n1)) \<inter> set (components (block (s0 + 2 * n1) n2)) = {}"
    unfolding c1 c2 by auto
  show ?thesis
    unfolding Let_def g0_def [symmetric] block_def [symmetric]
    using r1 r2 c1 c2 disj by (simp add: block_def)
qed

text \<open>The run \<open>s0 = 10\<close>, \<open>n1 = 2\<close>, \<open>n2 = 1\<close> from the state at import.\<close>

theorem seeds_contiguous_blocks_witness:
  "(0::int) < 2 \<and> (0::int) < 1 \<and> - (2 ^ 63) \<le> (10::int) \<and> (10::int) + 2 * 2 + 2 * 1 < 2 ^ 63 \<and>
   fst (random_ds_seeds 2 (snd (map_seed_manager_enter (Some 10) initial_globals))) =
     Inr [(Some 10, Some 11), (Some 12, Some 13)] \<and>
   fst (random_ds_seeds 1
         (snd (random_ds_seeds 2 (snd (map_seed_manager_enter (Some 10) initial_globals))))) =
     Inr [(Some 14, Some 15)] \<and>
   NEXT_MAP_SEED (snd (random_ds_seeds 1
         (snd (random_ds_seeds 2 (snd (map_seed_manager_enter (Some 10) initial_globals)))))) =
     Some 16"
  using seeds_contiguous_blocks [of 2 1 10 initial_globals]
  by (simp add: Let_def numeral_2_eq_2)

text \<open>
  C1 as stated holds for every integer \<open>s0\<close>. At \<open>s0 = 2 ^ 63 - 2\<close> with \<open>n1 = n2 = 1\<close> the
  first call asks for \<^verbatim>\<open>np.arange(2**63 - 2, 2**63)\<close>, whose upper bound does not fit
  \<^verbatim>\<open>int64\<close>: the array is of \<^verbatim>\<open>float64\<close> and the pair is \<open>(2 ^ 63, 2 ^ 63)\<close>, not
  \<open>(2 ^ 63 - 2, 2 ^ 63 - 1)\<close>. The second call computes the same pair again, so the two
  blocks are not disjoint either.
\<close>

theorem seeds_beyond_int64:
  "fst (random_ds_seeds 1
         (snd (map_seed_manager_enter (Some 9223372036854775806) initial_globals))) =
     Inr [(Some 9223372036854775808, Some 9223372036854775808)] \<and>
   fst (random_ds_seeds 1
         (snd (map_seed_manager_enter (Some 9223372036854775806) initial_globals))) \<noteq>
     Inr [(Some 9223372036854775806, Some 9223372036854775807)] \<and>
   fst (random_ds_seeds 1 (snd (random_ds_seeds 1
         (snd (map_seed_manager_enter (Some 9223372036854775806) initial_globals))))) =
     Inr [(Some 9223372036854775808, Some 9223372036854775808)]"
  by (simp add: random_ds_seeds_def map_seed_manager_enter_def
      np_arange_across_2_63 np_arange_from_2_63)

text \<open>
  C2. Inside a block \<^verbatim>\<open>with map_seed_manager(5)\<close>, a seeded call with one seed, then an
  inner block \<^verbatim>\<open>with map_seed_manager(100)\<close> that makes one such call, then, after the inner
  block, one more such call: the three calls compute \<open>(5, 6)\<close>, \<open>(100, 101)\<close> and
  \<open>(7, 8)\<close>, from any state. Leaving the inner block puts the outer counter back where
  it stood, and leaving the outer block puts the state back as it was before the run.
\<close>

theorem nesting_scenario:
  "map_seed_manager (Some 5)
     (bind (random_ds_seeds 1) (\<lambda>first.
      bind (map_seed_manager (Some 100) (random_ds_seeds 1)) (\<lambda>inner.
      bind (random_ds_seeds 1) (\<lambda>after. return (first, inner, after))))) g
   = (Inr ([(Some 5, Some 6)], [(Some 100, Some 101)], [(Some 7, Some 8)]), g)"
  by (simp add: map_seed_manager_def map_seed_manager_enter_def map_seed_manager_exit_def
      bind_def return_def random_ds_seeds_Some int64_def)

section \<open>An exception in the block leaves the counter changed\<close>

text \<open>
  What \<^verbatim>\<open>map_seed_manager\<close> does on each way out of its block: a block that ends normally
  gets the old counter back; a block that raises keeps whatever counter it left.
\<close>

lemma map_seed_manager_normal_exit:
  assumes "fst (map_seed_manager initial_seed body g) = Inr v"
  shows "NEXT_MAP_SEED (snd (map_seed_manager initial_seed body g)) = NEXT_MAP_SEED g"
  using assms
  by (auto simp: map_seed_manager_def map_seed_manager_enter_def map_seed_manager_exit_def
      split: prod.splits sum.splits)

lemma map_seed_manager_raising_exit:
  assumes "fst (map_seed_manager initial_seed body g) = Inl e"
  shows "snd (map_seed_manager initial_seed body g) = snd (body (g\<lparr>NEXT_MAP_SEED := initial_seed\<rparr>))"
  using assms
  by (auto simp: map_seed_manager_def map_seed_manager_enter_def map_seed_manager_exit_def
      split: prod.splits sum.splits)

text \<open>
  C3. The claim is that the counter is restored on every way out of the block, also
  when the block raises. In the run \<^verbatim>\<open>with map_seed_manager(5): raise ValueError()\<close> from
  the state at import, where the counter is \<^verbatim>\<open>None\<close>, the exception leaves the block
  and the counter is \<open>5\<close> afterwards.
\<close>

theorem exception_skips_restore:
  "NEXT_MAP_SEED initial_globals = None \<and>
   fst (map_seed_manager (Some 5) (raise ValueError) initial_globals) = Inl ValueError \<and>
   NEXT_MAP_SEED (snd (map_seed_manager (Some 5) (raise ValueError) initial_globals)) = Some 5"
  by (simp add: map_seed_manager_def map_seed_manager_enter_def raise_def initial_globals_def)

section \<open>Without an initial seed no counter moves\<close>

text \<open>
  C4. When \<^verbatim>\<open>_NEXT_MAP_SEED\<close> is \<^verbatim>\<open>None\<close>, either because no block was entered or
  because the block was entered with no seed, any sequence of seeded calls with counts
  \<open>n \<ge> 1\<close> computes for each call \<open>n\<close> pairs \<^verbatim>\<open>(None, None)\<close> and leaves the whole state as
  it was.
\<close>

theorem no_seed_no_advance:
  assumes "\<forall>n\<in>set ns. 1 \<le> n"
  shows "(NEXT_MAP_SEED g = None \<longrightarrow>
            seed_requests ns g = (Inr (map (\<lambda>n. replicate (nat n) (None, None)) ns), g)) \<and>
         (let g1 = snd (map_seed_manager_enter None g)
          in seed_requests ns g1 = (Inr (map (\<lambda>n. replicate (nat n) (None, None)) ns), g1))"
proof -
  have main: "seed_requests ns h = (Inr (map (\<lambda>n. replicate (nat n) (None, None)) ns), h)"
    if "NEXT_MAP_SEED h = None" for h
    using that
    by (induction ns) (simp_all add: return_def bind_def random_ds_seeds_None)
  have "NEXT_MAP_SEED (snd (map_seed_manager_enter None g)) = None"
    by (simp add: map_seed_manager_enter_def)
  then show ?thesis using main by (simp add: Let_def)
qed

text \<open>Two calls, with one seed and with three, from the state at import.\<close>

theorem no_seed_no_advance_witness:
  "(1::int) \<le> 1 \<and> (1::int) \<le> 3 \<and> NEXT_MAP_SEED initial_globals = None \<and>
   seed_requests [1, 3] initial_globals =
     (Inr [[(None, None)], [(None, None), (None, None), (None, None)]], initial_globals)"
  using no_seed_no_advance [of "[1, 3]" initial_globals]
  by (simp add: Let_def initial_globals_def numeral_3_eq_3)

section \<open>The builder is constructed once per key\<close>

text \<open>
  C5. Let \<open>k\<close> be the loader's key (its name and its resolved directory). If \<open>k\<close> is not
  memoized and \<^verbatim>\<open>tfds.builder\<close> returns a builder, two reads of \<^verbatim>\<open>self.builder\<close> in a row
  call \<^verbatim>\<open>tfds.builder\<close> once, with \<open>k\<close>'s name and directory, and both return the same
  object (the same identity and value), which is then stored under \<open>k\<close>. If \<open>k\<close> is
  memoized, a read returns the stored object, calls \<^verbatim>\<open>tfds.builder\<close> not at all and
  leaves the dictionary as it was.
\<close>

theorem builder_memoized_once:
  "let d = fst (data_dir self g); k = (self_name self, d);
       r1 = builder tfds self g; r2 = builder tfds self (snd r1)
   in (MEMOIZED_BUILDERS g k = None \<and> tfds (self_name self) d = Inr bd \<longrightarrow>
         fst r1 = Inr (next_id g, bd) \<and> fst r2 = Inr (next_id g, bd) \<and>
         builder_calls (snd r1) = builder_calls g @ [k] \<and>
         builder_calls (snd r2) = builder_calls g @ [k] \<and>
         MEMOIZED_BUILDERS (snd r2) k = Some (next_id g, bd)) \<and>
      (MEMOIZED_BUILDERS g k = Some b \<longrightarrow>
         fst r1 = Inr b \<and> builder_calls (snd r1) = builder_calls g \<and>
         MEMOIZED_BUILDERS (snd r1) = MEMOIZED_BUILDERS g)"
proof -
  let ?d = "fst (data_dir self g)"
  let ?k = "(self_name self, ?d)"
  let ?r1 = "builder tfds self g"
  let ?r2 = "builder tfds self (snd ?r1)"
  have miss: "fst ?r1 = Inr (next_id g, bd) \<and> fst ?r2 = Inr (next_id g, bd) \<and>
         builder_calls (snd ?r1) = builder_calls g @ [?k] \<and>
         builder_calls (snd ?r2) = builder_calls g @ [?k] \<and>
         MEMOIZED_BUILDERS (snd ?r2) ?k = Some (next_id g, bd)"
    if absent: "MEMOIZED_BUILDERS g ?k = None" and ok: "tfds (self_name self) ?d = Inr bd"
  proof -
    have r1: "fst ?r1 = Inr (next_id g, bd)"
      using absent ok by (simp add: builder_miss Let_def)
    have c1: "builder_calls (snd ?r1) = builder_calls g @ [?k]"
      using absent ok by (simp add: builder_miss Let_def)
    have r2: "?r2 = (Inr (next_id g, bd), snd (data_dir self (snd ?r1)))"
      by (rule builder_again [OF r1])
    have k2: "fst (data_dir self (snd ?r1)) = ?d"
      using builder_memoizes(2) [OF r1] by (simp add: fst_data_dir)
    have m2: "MEMOIZED_BUILDERS (snd ?r2) ?k = Some (next_id g, bd)"
      using builder_memoizes(1) [OF r1] by (simp add: r2 data_dir_frame)
    show ?thesis using r1 c1 m2 by (simp add: r2 data_dir_frame)
  qed
  have hit: "fst ?r1 = Inr b \<and> builder_calls (snd ?r1) = builder_calls g \<and>
         MEMOIZED_BUILDERS (snd ?r1) = MEMOIZED_BUILDERS g"
    if "MEMOIZED_BUILDERS g ?k = Some b"
    using that by (simp add: builder_hit data_dir_frame)
  show ?thesis unfolding Let_def using miss hit by blast
qed

text \<open>Two reads of \<^verbatim>\<open>LazyTfdsLoader("mnist").builder\<close> from the state at import.\<close>

theorem builder_memoized_once_witness:
  "MEMOIZED_BUILDERS initial_globals (''mnist'', None) = None \<and>
   example_tfds ''mnist'' None = Inr example_builder \<and>
   fst (builder example_tfds example_loader initial_globals) = Inr (0, example_builder) \<and>
   fst (builder example_tfds example_loader
          (snd (builder example_tfds example_loader initial_globals))) = Inr (0, example_builder) \<and>
   builder_calls (snd (builder example_tfds example_loader
          (snd (builder example_tfds example_loader initial_globals)))) = [(''mnist'', None)]"
  using builder_memoized_once [of example_loader initial_globals example_tfds example_builder]
  by (simp add: Let_def data_dir_def truthy_def initial_globals_def example_loader_def
      example_tfds_def)

section \<open>Readers of the builder that overlap\<close>

text \<open>
  A thread that runs its four statements with no other thread in between does what
  \<^verbatim>\<open>builder\<close> does.
\<close>

lemma four_steps:
  "(case builder_step tfds self At_key g of
      (t1, g1) \<Rightarrow>
        (case builder_step tfds self t1 g1 of
           (t2, g2) \<Rightarrow>
             (case builder_step tfds self t2 g2 of
                (t3, g3) \<Rightarrow> builder_step tfds self t3 g3))) =
   (Finished (fst (builder tfds self g)), snd (builder tfds self g))"
  by (auto simp: builder_step_def builder_def Let_def
      split: prod.splits sum.splits option.splits)

lemma run_four:
  assumes "i < length ts" and "ts ! i = At_key"
  shows "run tfds self (replicate 4 i @ rest) ts g =
     run tfds self rest (ts[i := Finished (fst (builder tfds self g))]) (snd (builder tfds self g))"
proof -
  obtain t1 g1 where s1: "builder_step tfds self At_key g = (t1, g1)"
    by (cases "builder_step tfds self At_key g")
  obtain t2 g2 where s2: "builder_step tfds self t1 g1 = (t2, g2)"
    by (cases "builder_step tfds self t1 g1")
  obtain t3 g3 where s3: "builder_step tfds self t2 g2 = (t3, g3)"
    by (cases "builder_step tfds self t2 g2")
  have s4: "builder_step tfds self t3 g3 =
      (Finished (fst (builder tfds self g)), snd (builder tfds self g))"
    using four_steps [of tfds self g] s1 s2 s3 by simp
  have "replicate 4 i @ rest = i # i # i # i # rest"
    by (simp add: numeral_eq_Suc)
  then show ?thesis using assms s1 s2 s3 s4 by simp
qed

lemma reads_after_the_first:
  assumes "MEMOIZED_BUILDERS g (self_name self, fst (data_dir self g)) = Some b"
    and "length pre = m"
  shows "fst (run tfds self (concat (map (replicate 4) [m..<m + j])) (pre @ replicate j At_key) g) =
           pre @ replicate j (Finished (Inr b)) \<and>
         builder_calls (snd (run tfds self (concat (map (replicate 4) [m..<m + j]))
           (pre @ replicate j At_key) g)) = builder_calls g"
  using assms
proof (induction j arbitrary: pre m g)
  case 0
  then show ?case by simp
next
  case (Suc j)
  let ?g1 = "snd (data_dir self g)"
  have b: "builder tfds self g = (Inr b, ?g1)"
    by (rule builder_hit [OF Suc.prems(1)])
  have sched: "concat (map (replicate 4) [m..<m + Suc j]) =
      replicate 4 m @ concat (map (replicate 4) [Suc m..<Suc m + j])"
    by (simp add: upt_conv_Cons del: upt_Suc)
  have at: "m < length (pre @ replicate (Suc j) At_key)" "(pre @ replicate (Suc j) At_key) ! m = At_key"
    using Suc.prems(2) by (simp_all add: nth_append)
  have upd: "(pre @ replicate (Suc j) At_key)[m := Finished (Inr b)] =
      (pre @ [Finished (Inr b)]) @ replicate j At_key"
    using Suc.prems(2) by (simp add: list_update_append)
  have step: "run tfds self (concat (map (replicate 4) [m..<m + Suc j]))
        (pre @ replicate (Suc j) At_key) g =
      run tfds self (concat (map (replicate 4) [Suc m..<Suc m + j]))
        ((pre @ [Finished (Inr b)]) @ replicate j At_key) ?g1"
    unfolding sched using run_four [OF at, of tfds self _ g] b upd by simp
  have "fst (data_dir self ?g1) = fst (data_dir self g)"
    by (simp add: fst_data_dir data_dir_frame)
  then have memo: "MEMOIZED_BUILDERS ?g1 (self_name self, fst (data_dir self ?g1)) = Some b"
    using Suc.prems(1) by (simp add: data_dir_frame)
  have len: "length (pre @ [Finished (Inr b)]) = Suc m"
    using Suc.prems(2) by simp
  show ?case
    unfolding step using Suc.IH [OF memo len]
    by (simp add: data_dir_frame replicate_app_Cons_same)
qed

text \<open>
  C6, as amended. When \<open>n \<ge> 1\<close> threads read \<^verbatim>\<open>self.builder\<close> for a key that is not memoized,
  \<^verbatim>\<open>tfds.builder\<close> returns a builder, and the reads run one after another (none starts
  before the one before it has returned), \<^verbatim>\<open>tfds.builder\<close> is called once and all \<open>n\<close> reads
  return the same object. The property holds no lock: reads that overlap may each find
  the key missing, and then each calls \<^verbatim>\<open>tfds.builder\<close> and returns an object of its own.
\<close>

theorem reads_one_after_another:
  "let d = fst (data_dir self g); k = (self_name self, d);
       r = run tfds self (one_after_another n) (replicate n At_key) g
   in MEMOIZED_BUILDERS g k = None \<and> tfds (self_name self) d = Inr bd \<and> 0 < n \<longrightarrow>
        fst r = replicate n (Finished (Inr (next_id g, bd))) \<and>
        builder_calls (snd r) = builder_calls g @ [k]"
proof -
  let ?d = "fst (data_dir self g)"
  let ?k = "(self_name self, ?d)"
  let ?b = "(next_id g, bd)"
  have main: "fst (run tfds self (one_after_another n) (replicate n At_key) g) =
        replicate n (Finished (Inr ?b)) \<and>
      builder_calls (snd (run tfds self (one_after_another n) (replicate n At_key) g)) =
        builder_calls g @ [?k]"
    if absent: "MEMOIZED_BUILDERS g ?k = None" and ok: "tfds (self_name self) ?d = Inr bd"
      and n: "0 < n"
  proof -
    obtain j where j: "n = Suc j" using n by (cases n) simp_all
    let ?g1 = "snd (builder tfds self g)"
    have r1: "fst (builder tfds self g) = Inr ?b"
      using absent ok by (simp add: builder_miss Let_def)
    have c1: "builder_calls ?g1 = builder_calls g @ [?k]"
      using absent ok by (simp add: builder_miss Let_def)
    have sched: "one_after_another (Suc j) =
        replicate 4 0 @ concat (map (replicate 4) [Suc 0..<Suc 0 + j])"
      by (simp add: one_after_another_def upt_conv_Cons del: upt_Suc)
    have first: "run tfds self (one_after_another (Suc j)) (replicate (Suc j) At_key) g =
        run tfds self (concat (map (replicate 4) [Suc 0..<Suc 0 + j]))
          ([Finished (Inr ?b)] @ replicate j At_key) ?g1"
      unfolding sched using run_four [of 0 "replicate (Suc j) At_key" tfds self _ g] r1 by simp
    have "fst (data_dir self ?g1) = ?d"
      using builder_memoizes(2) [OF r1] by (simp add: fst_data_dir)
    then have memo: "MEMOIZED_BUILDERS ?g1 (self_name self, fst (data_dir self ?g1)) = Some ?b"
      using builder_memoizes(1) [OF r1] by simp
    have len: "length [Finished (Inr ?b)] = Suc 0" by simp
    show ?thesis
      unfolding j first using reads_after_the_first [OF memo len, of tfds j] c1
      by simp
  qed
  show ?thesis unfolding Let_def using main by blast
qed

text \<open>Three reads of \<^verbatim>\<open>LazyTfdsLoader("mnist").builder\<close>, one after another.\<close>

theorem reads_one_after_another_witness:
  "MEMOIZED_BUILDERS initial_globals (''mnist'', None) = None \<and>
   example_tfds ''mnist'' None = Inr example_builder \<and> (0::nat) < 3 \<and>
   fst (run example_tfds example_loader (one_after_another 3) [At_key, At_key, At_key]
          initial_globals) =
     [Finished (Inr (0, example_builder)), Finished (Inr (0, example_builder)),
      Finished (Inr (0, example_builder))] \<and>
   builder_calls (snd (run example_tfds example_loader (one_after_another 3)
          [At_key, At_key, At_key] initial_globals)) = [(''mnist'', None)]"
  using reads_one_after_another [of example_loader initial_globals example_tfds 3 example_builder]
  by (simp add: Let_def data_dir_def truthy_def initial_globals_def example_loader_def
      example_tfds_def numeral_3_eq_3)

text \<open>
  C6 as stated has any number of concurrent reads call \<^verbatim>\<open>tfds.builder\<close> once and return
  one object. Two threads from the state at import, in the order: the first computes its
  key and finds it missing, the second computes its key and finds it missing, the first
  constructs, stores and returns, the second constructs, stores and returns.
  \<^verbatim>\<open>tfds.builder\<close> is called twice and the two reads return different objects.
\<close>

theorem overlapping_reads_build_twice:
  "fst (run example_tfds example_loader [0, 0, 1, 1, 0, 0, 1, 1] [At_key, At_key]
          initial_globals) =
     [Finished (Inr (0, example_builder)), Finished (Inr (1, example_builder))] \<and>
   builder_calls (snd (run example_tfds example_loader [0, 0, 1, 1, 0, 0, 1, 1]
          [At_key, At_key] initial_globals)) = [(''mnist'', None), (''mnist'', None)]"
  by (simp add: builder_step_def data_dir_def truthy_def initial_globals_def example_loader_def
      tfds_builder_def example_tfds_def Let_def)

section \<open>Which directory a loader reads\<close>

text \<open>
  C7, as amended. After \<^verbatim>\<open>set_tfds_data_dir_override(override)\<close>: when the override is a
  non-empty string, \<^verbatim>\<open>data_dir\<close> returns it, and it logs a warning exactly when the loader's
  own directory is a non-empty string too, whether or not the two differ; when the
  override is \<^verbatim>\<open>None\<close> or empty, \<^verbatim>\<open>data_dir\<close> returns the loader's own directory (possibly
  \<^verbatim>\<open>None\<close>) and logs nothing. Nothing else of the state changes.
\<close>

theorem data_dir_resolution:
  "let g = set_tfds_data_dir_override override g0; own = self_data_dir self;
       r = data_dir self g
   in (truthy override \<longrightarrow> fst r = override) \<and>
      (\<not> truthy override \<longrightarrow> fst r = own) \<and>
      (truthy override \<and> truthy own \<longrightarrow>
         snd r = g\<lparr>warnings := warnings g @ [(own, override, self_name self)]\<rparr>) \<and>
      (\<not> (truthy override \<and> truthy own) \<longrightarrow> snd r = g)"
  by (simp add: Let_def set_tfds_data_dir_override_def data_dir_def)

text \<open>
  An override over a loader with a directory of its own, over one without, and no
  override.
\<close>

theorem data_dir_resolution_witness:
  "truthy (Some ''/override'') \<and> truthy (Some ''/own'') \<and> \<not> truthy None \<and>
   data_dir \<lparr>self_name = ''mnist'', self_data_dir = Some ''/own'', self_split_map = None\<rparr>
      (set_tfds_data_dir_override (Some ''/override'') initial_globals) =
     (Some ''/override'',
      (set_tfds_data_dir_override (Some ''/override'') initial_globals)
        \<lparr>warnings := [(Some ''/own'', Some ''/override'', ''mnist'')]\<rparr>) \<and>
   data_dir example_loader (set_tfds_data_dir_override (Some ''/override'') initial_globals) =
     (Some ''/override'', set_tfds_data_dir_override (Some ''/override'') initial_globals) \<and>
   data_dir \<lparr>self_name = ''mnist'', self_data_dir = Some ''/own'', self_split_map = None\<rparr>
      (set_tfds_data_dir_override None initial_globals) =
     (Some ''/own'', set_tfds_data_dir_override None initial_globals)"
  using data_dir_resolution [of "Some ''/override''" initial_globals
          "\<lparr>self_name = ''mnist'', self_data_dir = Some ''/own'', self_split_map = None\<rparr>"]
    data_dir_resolution [of "Some ''/override''" initial_globals example_loader]
    data_dir_resolution [of None initial_globals
          "\<lparr>self_name = ''mnist'', self_data_dir = Some ''/own'', self_split_map = None\<rparr>"]
  by (simp add: Let_def truthy_def example_loader_def prod_eq_iff
      set_tfds_data_dir_override_def initial_globals_def)

text \<open>
  C7 as stated has the warning occur exactly when both directories are set and differ.
  A loader built with the directory \<^verbatim>\<open>/data\<close>, under the override \<^verbatim>\<open>/data\<close>: the two are the
  same and the warning is logged.
\<close>

theorem warning_without_difference:
  "self_data_dir \<lparr>self_name = ''mnist'', self_data_dir = Some ''/data'', self_split_map = None\<rparr> =
     TFDS_DATA_DIR_OVERRIDE (set_tfds_data_dir_override (Some ''/data'') initial_globals) \<and>
   warnings (set_tfds_data_dir_override (Some ''/data'') initial_globals) = [] \<and>
   warnings (snd (data_dir
       \<lparr>self_name = ''mnist'', self_data_dir = Some ''/data'', self_split_map = None\<rparr>
       (set_tfds_data_dir_override (Some ''/data'') initial_globals))) =
     [(Some ''/data'', Some ''/data'', ''mnist'')]"
  by (simp add: data_dir_def truthy_def set_tfds_data_dir_override_def initial_globals_def)

section \<open>Mapping a split name\<close>

text \<open>
  C8, as amended. \<^verbatim>\<open>_map_split\<close> returns the mapped expression when the name is a key of
  the split map; it returns the name itself when the loader has no split map or an
  empty one; and with a non-empty split map that lacks the name it raises
  \<^verbatim>\<open>KeyError\<close>.
\<close>

theorem map_split_resolution:
  "(self_split_map self = Some m \<and> map_of m split = Some s \<longrightarrow> map_split self split = Inr s) \<and>
   (self_split_map self = None \<or> self_split_map self = Some [] \<longrightarrow>
      map_split self split = Inr split) \<and>
   (self_split_map self = Some m \<and> m \<noteq> [] \<and> map_of m split = None \<longrightarrow>
      map_split self split = Inl KeyError)"
  by (auto simp: map_split_def)

text \<open>
  The split map \<^verbatim>\<open>{"validation": "train[:1%]"}\<close> at \<^verbatim>\<open>validation\<close> and at \<^verbatim>\<open>train\<close>, no
  split map, and an empty one.
\<close>

theorem map_split_resolution_witness:
  "map_split \<lparr>self_name = ''mnist'', self_data_dir = None,
               self_split_map = Some [(''validation'', ''train[:1%]'')]\<rparr> ''validation'' =
     Inr ''train[:1%]'' \<and>
   map_split example_loader ''validation'' = Inr ''validation'' \<and>
   map_split \<lparr>self_name = ''mnist'', self_data_dir = None, self_split_map = Some []\<rparr> ''train'' =
     Inr ''train'' \<and>
   map_split \<lparr>self_name = ''mnist'', self_data_dir = None,
               self_split_map = Some [(''validation'', ''train[:1%]'')]\<rparr> ''train'' =
     Inl KeyError"
  using map_split_resolution [of "\<lparr>self_name = ''mnist'', self_data_dir = None,
               self_split_map = Some [(''validation'', ''train[:1%]'')]\<rparr>"
           "[(''validation'', ''train[:1%]'')]" "''validation''" "''train[:1%]''"]
    map_split_resolution [of example_loader "[]" "''validation''" "''x''"]
    map_split_resolution [of "\<lparr>self_name = ''mnist'', self_data_dir = None, self_split_map = Some []\<rparr>"
           "[]" "''train''" "''x''"]
    map_split_resolution [of "\<lparr>self_name = ''mnist'', self_data_dir = None,
               self_split_map = Some [(''validation'', ''train[:1%]'')]\<rparr>"
           "[(''validation'', ''train[:1%]'')]" "''train''" "''x''"]
  by (simp add: example_loader_def)

text \<open>
  C8 as stated has every name that is not a key resolve to itself. Under the split map
  \<^verbatim>\<open>{"validation": "train[:1%]"}\<close> the name \<^verbatim>\<open>train\<close> does not: the lookup raises.
\<close>

theorem unmapped_split_raises:
  "map_split \<lparr>self_name = ''mnist'', self_data_dir = None,
               self_split_map = Some [(''validation'', ''train[:1%]'')]\<rparr> ''train'' =
     Inl KeyError \<and>
   map_split \<lparr>self_name = ''mnist'', self_data_dir = None,
               self_split_map = Some [(''validation'', ''train[:1%]'')]\<rparr> ''train'' \<noteq>
     Inr ''train''"
  by (simp add: map_split_def)

section \<open>Listing the files of a split\<close>

text \<open>
  What \<^verbatim>\<open>files\<close> returns once the split name maps to \<open>s\<close>, the builder is read as \<open>b\<close>, the
  check for several configs passes and \<open>b\<close> knows the split \<open>s\<close>: under absl's handler an
  empty list of file instructions ends the process; otherwise the list is returned,
  empty or not.
\<close>

lemma files_resolved:
  assumes "map_split self split = Inr s"
    and "fst (builder tfds self g) = Inr b"
    and "\<not> (CHR ''/'' \<notin> set (self_name self) \<and> BUILDER_CONFIGS (snd b) \<noteq> [])"
    and "splits (info (snd b)) s = Some si"
  shows "fst (files tfds self split g) =
     (if file_instructions si = [] \<and> absl_handler g then Inl Fatal
      else Inr (file_instructions si))"
proof (cases "CHR ''/'' \<in> set (self_name self)")
  case True
  obtain r g1 where b: "builder tfds self g = (r, g1)" by (cases "builder tfds self g")
  with assms(2) have b1: "builder tfds self g = (Inr b, g1)" by simp
  have "absl_handler g1 = absl_handler g"
    using builder_keeps_handler [of tfds self g] b1 by simp
  then show ?thesis using True assms(1,4) b1
    by (simp add: files_def bind_def lift_def return_def raise_def Let_def logging_fatal_def)
next
  case False
  obtain r g1 where b: "builder tfds self g = (r, g1)" by (cases "builder tfds self g")
  with assms(2) have b1: "builder tfds self g = (Inr b, g1)" by simp
  have "builder tfds self (snd (builder tfds self g)) =
           (Inr b, snd (data_dir self (snd (builder tfds self g))))"
    by (rule builder_again [OF assms(2)])
  then have b2: "builder tfds self g1 = (Inr b, snd (data_dir self g1))" using b1 by simp
  have h: "absl_handler (snd (data_dir self g1)) = absl_handler g"
    using builder_keeps_handler [of tfds self g] b1 by (simp add: data_dir_frame)
  from False assms(3) have "BUILDER_CONFIGS (snd b) = []" by simp
  then show ?thesis using False assms(1,4) b1 b2 h
    by (simp add: files_def bind_def lift_def return_def raise_def Let_def logging_fatal_def)
qed

text \<open>
  C9. The claim is that \<^verbatim>\<open>files\<close> never returns an empty list: a split without file
  instructions raises the fatal condition. The \<^verbatim>\<open>test\<close> split of the example dataset has no
  files. From the state at import, where absl's handler is not installed,
  \<^verbatim>\<open>LazyTfdsLoader("mnist").files("test")\<close> logs the record and returns the empty list. With
  the handler installed the same call ends the process.
\<close>

theorem files_returns_empty_list:
  "absl_handler initial_globals = False \<and>
   map_split example_loader ''test'' = Inr ''test'' \<and>
   fst (files example_tfds example_loader ''test'' initial_globals) = Inr [] \<and>
   fst (files example_tfds example_loader ''test'' (initial_globals\<lparr>absl_handler := True\<rparr>)) =
     Inl Fatal"
proof -
  have read: "fst (builder example_tfds example_loader g) = Inr (next_id g, example_builder)"
    if "MEMOIZED_BUILDERS g = Map.empty" "TFDS_DATA_DIR_OVERRIDE g = None" for g
    using that
    by (simp add: builder_miss Let_def data_dir_def truthy_def example_loader_def example_tfds_def)
  have m: "map_split example_loader ''test'' = Inr ''test''"
    by (simp add: map_split_def example_loader_def)
  have c: "\<not> (CHR ''/'' \<notin> set (self_name example_loader) \<and>
      BUILDER_CONFIGS (snd (n, example_builder)) \<noteq> [])" for n :: nat
    by (simp add: example_builder_def)
  have s: "splits (info (snd (n, example_builder))) ''test'' =
      Some \<lparr>file_instructions = [], num_examples = 0\<rparr>" for n :: nat
    by (simp add: example_builder_def)
  have "fst (files example_tfds example_loader ''test'' initial_globals) = Inr []"
    using files_resolved [OF m read c s, of initial_globals]
    by (simp add: initial_globals_def)
  moreover have "fst (files example_tfds example_loader ''test''
      (initial_globals\<lparr>absl_handler := True\<rparr>)) = Inl Fatal"
    using files_resolved [OF m read c s, of "initial_globals\<lparr>absl_handler := True\<rparr>"]
    by (simp add: initial_globals_def)
  ultimately show ?thesis using m by (simp add: initial_globals_def)
qed

section \<open>The size of a split\<close>

lemma size_of_resolved:
  assumes "map_split self split = Inr s"
    and "fst (builder tfds self g) = Inr b"
    and "splits (info (snd b)) s = Some si"
  shows "fst (size_of tfds self split g) =
      Inr (if 0 < num_examples si then Examples (num_examples si) else np_inf)"
proof -
  obtain r g1 where "builder tfds self g = (r, g1)" by (cases "builder tfds self g")
  with assms(2) have "builder tfds self g = (Inr b, g1)" by simp
  then show ?thesis
    using assms(1,3) by (simp add: size_of_def bind_def lift_def return_def Let_def)
qed

text \<open>
  C10. When the split name maps to \<open>s\<close>, the builder is read as \<open>b\<close> and \<open>b\<close> knows the
  split \<open>s\<close>: \<^verbatim>\<open>size\<close> returns the declared number of examples when it is positive and
  \<^verbatim>\<open>np.inf\<close> when it is zero or negative; for a declared number of \<open>0\<close> the result is not
  the number \<open>0\<close>.
\<close>

theorem size_sentinel:
  "map_split self split = Inr s \<and> fst (builder tfds self g) = Inr b \<and>
   splits (info (snd b)) s = Some si \<longrightarrow>
     (0 < num_examples si \<longrightarrow>
        fst (size_of tfds self split g) = Inr (Examples (num_examples si))) \<and>
     (num_examples si \<le> 0 \<longrightarrow> fst (size_of tfds self split g) = Inr np_inf) \<and>
     (num_examples si = 0 \<longrightarrow> fst (size_of tfds self split g) \<noteq> Inr (Examples 0))"
  using size_of_resolved [of self split s tfds g b si] by simp

text \<open>
  The \<^verbatim>\<open>test\<close> split of the example dataset declares \<open>0\<close> examples, its \<^verbatim>\<open>train\<close> split
  \<open>60000\<close>.
\<close>

lemma example_builder_read:
  "fst (builder example_tfds example_loader initial_globals) = Inr (0, example_builder)"
  by (simp add: builder_miss Let_def data_dir_def truthy_def initial_globals_def
      example_loader_def example_tfds_def)

theorem size_sentinel_witness:
  "map_split example_loader ''test'' = Inr ''test'' \<and>
   map_split example_loader ''train'' = Inr ''train'' \<and>
   fst (builder example_tfds example_loader initial_globals) = Inr (0, example_builder) \<and>
   fst (size_of example_tfds example_loader ''test'' initial_globals) = Inr np_inf \<and>
   fst (size_of example_tfds example_loader ''train'' initial_globals) = Inr (Examples 60000)"
  using size_sentinel [of example_loader "''test''" "''test''" example_tfds initial_globals
          "(0, example_builder)" "\<lparr>file_instructions = [], num_examples = 0\<rparr>"]
    size_sentinel [of example_loader "''train''" "''train''" example_tfds initial_globals
          "(0, example_builder)"
          "\<lparr>file_instructions = [''mnist-train.tfrecord-00000-of-00001''], num_examples = 60000\<rparr>"]
    example_builder_read
  by (simp add: map_split_def example_loader_def example_builder_def)

end
